theory Spec2Isabelle
  imports Complex_Main "HOL-Library.Word"
begin

unbundle bit_operations_syntax

section \<open>Data model of BasicMotorControl.c\<close>

text \<open>
  The file keeps its state in file-level variables (\<^verbatim>\<open>motorInfo\<close>, \<^verbatim>\<open>PIDs\<close>,
  \<^verbatim>\<open>timerCurr\<close>, \<^verbatim>\<open>timer\<close>, \<^verbatim>\<open>commandedTorque\<close>, \<^verbatim>\<open>changeState\<close>) and in
  special-function registers of the dsPIC (\<^verbatim>\<open>TMR2\<close>, \<^verbatim>\<open>TMR3HLD\<close>, the Hall inputs, the
  six duty-cycle registers, the LEDs, the change-notification flag). Every function
  of the model takes this state and returns the new one.

  C \<^verbatim>\<open>float\<close> is modelled by \<^typ>\<open>real\<close>: the arithmetic is exact, and rounding,
  infinities and NaN are outside the model. The comparisons and branches of the source
  are kept as they are written.
\<close>

text \<open>The static struct \<^verbatim>\<open>PIDs\<close> (lines 52-61).\<close>

record PID_state =
  Kp :: real
  Ki :: real
  Kd :: real
  err :: real
  der :: real
  "output" :: real
  integral :: real
  currentError :: real

text \<open>
  Modelled from the spec: the struct type \<^verbatim>\<open>BasicMotorControlInfo\<close> is declared in
  BasicMotorControl.h, which is not among the sources. The spec's data model gives the
  speed estimate as a signed integer, the Hall transition count as an unsigned integer
  and the last Hall pattern as a 3-bit value. The count is a machine word of a width
  \<open>'h\<close> left open (its increment wraps); the speed is an integer wide enough for every
  value the code stores in it (0 to 52500000).
\<close>

record (overloaded) ('h::len) BasicMotorControlInfo =
  currentSpeed :: int
  hallCount :: "'h word"
  lastHallState :: "3 word"

text \<open>
  The special-function registers the file reads and writes. The Hall inputs are read as
  truth values; one call of \<^verbatim>\<open>TrapUpdate\<close> sees one value of each. The duty-cycle
  registers take the 16-bit torque; the LEDs and the interrupt flag are single bits.
\<close>

record registers =
  TMR2 :: "16 word"
  TMR3HLD :: "16 word"
  HALL1 :: bool
  HALL2 :: bool
  HALL3 :: bool
  GH_A_DC :: "16 word"
  GL_A_DC :: "16 word"
  GH_B_DC :: "16 word"
  GL_B_DC :: "16 word"
  GH_C_DC :: "16 word"
  GL_C_DC :: "16 word"
  LED1 :: bool
  LED2 :: bool
  LED3 :: bool
  CNIF :: bool

text \<open>
  The direction codes \<^verbatim>\<open>CW\<close> and \<^verbatim>\<open>CCW\<close> come from a header that is not among the
  sources; they are parameters of the model.
\<close>

record direction_codes =
  CW :: "16 word"
  CCW :: "16 word"

text \<open>
  The whole state. \<open>uart\<close> is the list of diagnostic lines written by \<^verbatim>\<open>putsUART2\<close>,
  each kept as the two values printed (speed expression, PID output).
\<close>

record (overloaded) ('h::len) state =
  motorInfo :: "'h BasicMotorControlInfo"
  PIDs :: PID_state
  timerCurr :: "32 word"
  timer :: "32 word"
  commandedTorque :: "16 word"
  changeState :: "8 word"
  regs :: registers
  uart :: "(nat \<times> real) list"

text \<open>An integer division by zero traps; the model returns it as a fault.\<close>

datatype fault = DivisionByZero

section \<open>Operations\<close>

text \<open>\<^verbatim>\<open>SpeedControlInit\<close> (lines 91-111); the DSP library calls touch no state of the model.\<close>

definition SpeedControlInit :: "real \<Rightarrow> real \<Rightarrow> real \<Rightarrow> ('h::len) state \<Rightarrow> 'h state" where
  "SpeedControlInit p i d s =
     s\<lparr>motorInfo := (motorInfo s)\<lparr>currentSpeed := 0, hallCount := 0, lastHallState := 0\<rparr>,
       PIDs := (PIDs s)\<lparr>err := 0, der := 0, integral := 0, Kp := p, Ki := i, Kd := d\<rparr>,
       regs := (regs s)\<lparr>TMR3HLD := 0, TMR2 := 0\<rparr>,
       timer := 0\<rparr>"

text \<open>Conversion of a \<^verbatim>\<open>float\<close> to \<^verbatim>\<open>uint16_t\<close>: the fraction is dropped (towards zero).\<close>

definition float_to_u16 :: "real \<Rightarrow> 16 word" where
  "float_to_u16 x = word_of_int (if 0 \<le> x then \<lfloor>x\<rfloor> else \<lceil>x\<rceil>)"

text \<open>
  \<^verbatim>\<open>SpeedControlStep\<close> (lines 118-156). Both divisions of line 122 are unsigned integer
  divisions; each traps on a zero divisor. Every assignment to a field of \<^verbatim>\<open>PIDs\<close> is a
  binding of the field's new value, in the order of the source: line 124
  (\<open>currentError1\<close>, the difference taken in the signed type of the speed field), 126
  (\<open>der1\<close>), 127 (\<open>integral1\<close>), 128-130 (\<open>integral2\<close>), 132-133 (\<open>output1\<close>), 136-140
  (\<open>output2\<close>), 141 (\<open>err1\<close>), 143 (\<^verbatim>\<open>commandedTorque\<close>). The statement of lines 132-133
  ends at the semicolon after the Ki term; line 134 is an expression statement of its
  own and assigns nothing.
\<close>

definition SpeedControlStep ::
    "16 word \<Rightarrow> 8 word \<Rightarrow> 8 word \<Rightarrow> ('h::len) state \<Rightarrow> fault + 'h state" where
  "SpeedControlStep speed direction update s =
     (if update \<noteq> 0 then
        if changeState s \<noteq> 0 then
          if hallCount (motorInfo s) = 0 then Inl DivisionByZero
          else if unat (timer s) div unat (hallCount (motorInfo s)) = 0 then Inl DivisionByZero
          else
            let p = PIDs s;
                speed_now = 52500000 div (unat (timer s) div unat (hallCount (motorInfo s)));
                currentError1 = real_of_int (uint speed - int speed_now);
                der1 = err p - currentError1;
                integral1 = integral p + err p;
                integral2 = (if integral1 > 2000000 then 2000000 else integral1);
                output1 = Kp p * err p + Ki p * integral2 * 0.001;
                output2 = (if output1 > 30000 then 30000
                           else if output1 < 0 then 0
                           else output1);
                err1 = currentError1
            in Inr (s\<lparr>motorInfo := (motorInfo s)\<lparr>currentSpeed := int speed_now, hallCount := 0\<rparr>,
                     PIDs := p\<lparr>currentError := currentError1, der := der1, integral := integral2,
                               output := output2, err := err1\<rparr>,
                     commandedTorque := float_to_u16 (output2 / 30),
                     uart := uart s @ [(speed_now, output2)],
                     changeState := 0,
                     timer := 0,
                     timerCurr := 0\<rparr>)
        else Inr s
      else Inr s)"

text \<open>One branch of the commutation table: the six duty cycles and the three LEDs.\<close>

definition set_outputs ::
    "16 word \<Rightarrow> 16 word \<Rightarrow> 16 word \<Rightarrow> 16 word \<Rightarrow> 16 word \<Rightarrow> 16 word \<Rightarrow>
     bool \<Rightarrow> bool \<Rightarrow> bool \<Rightarrow> registers \<Rightarrow> registers" where
  "set_outputs gh_a gl_a gh_b gl_b gh_c gl_c l1 l2 l3 r =
     r\<lparr>GH_A_DC := gh_a, GL_A_DC := gl_a, GH_B_DC := gh_b, GL_B_DC := gl_b,
       GH_C_DC := gh_c, GL_C_DC := gl_c, LED1 := l1, LED2 := l2, LED3 := l3\<rparr>"

text \<open>The two if-chains of \<^verbatim>\<open>TrapUpdate\<close> (lines 194-318), branch by branch.\<close>

definition commutate :: "direction_codes \<Rightarrow> 16 word \<Rightarrow> 16 word \<Rightarrow> registers \<Rightarrow> registers" where
  "commutate dc torque direction r =
     (if direction = CW dc then
        if HALL1 r \<and> HALL2 r \<and> \<not> HALL3 r then
          set_outputs 0 0 torque 0 0 torque True True False r
        else if \<not> HALL1 r \<and> HALL2 r \<and> \<not> HALL3 r then
          set_outputs 0 torque torque 0 0 0 False True False r
        else if \<not> HALL1 r \<and> HALL2 r \<and> HALL3 r then
          set_outputs 0 torque 0 0 torque 0 False True True r
        else if \<not> HALL1 r \<and> \<not> HALL2 r \<and> HALL3 r then
          set_outputs 0 0 0 torque torque 0 False False True r
        else if HALL1 r \<and> \<not> HALL2 r \<and> HALL3 r then
          set_outputs torque 0 0 torque 0 0 True False True r
        else if HALL1 r \<and> \<not> HALL2 r \<and> \<not> HALL3 r then
          set_outputs torque 0 0 0 0 torque True False False r
        else r
      else if direction = CCW dc then
        if HALL1 r \<and> HALL2 r \<and> \<not> HALL3 r then
          set_outputs 0 0 0 torque torque 0 True True False r
        else if \<not> HALL1 r \<and> HALL2 r \<and> \<not> HALL3 r then
          set_outputs torque 0 0 torque 0 0 False True False r
        else if \<not> HALL1 r \<and> HALL2 r \<and> HALL3 r then
          set_outputs torque 0 0 0 0 torque False True True r
        else if \<not> HALL1 r \<and> \<not> HALL2 r \<and> HALL3 r then
          set_outputs 0 0 torque 0 0 torque False False True r
        else if HALL1 r \<and> \<not> HALL2 r \<and> HALL3 r then
          set_outputs 0 torque torque 0 0 0 True False True r
        else if HALL1 r \<and> \<not> HALL2 r \<and> \<not> HALL3 r then
          set_outputs 0 torque 0 0 torque 0 True False False r
        else r
      else r)"

text \<open>
  \<^verbatim>\<open>TrapUpdate\<close> (lines 182-319): the count, the 32-bit timer read (low word from
  \<^verbatim>\<open>TMR2\<close>, high word from \<^verbatim>\<open>TMR3HLD\<close>), the accumulation, the timer reset and the
  flag; then the commutation.
\<close>

definition TrapUpdate ::
    "direction_codes \<Rightarrow> 16 word \<Rightarrow> 16 word \<Rightarrow> ('h::len) state \<Rightarrow> 'h state" where
  "TrapUpdate dc torque direction s =
     (let tc = ucast (TMR2 (regs s)) OR (push_bit 16 (ucast (TMR3HLD (regs s))) AND 0xFFFF0000);
          s1 = s\<lparr>motorInfo := (motorInfo s)\<lparr>hallCount := hallCount (motorInfo s) + 1\<rparr>,
                 timerCurr := tc,
                 timer := timer s + tc,
                 regs := (regs s)\<lparr>TMR3HLD := 0, TMR2 := 0\<rparr>,
                 changeState := 1\<rparr>
      in s1\<lparr>regs := commutate dc torque direction (regs s1)\<rparr>)"

text \<open>The change-notification interrupt handler (lines 321-325).\<close>

definition CNInterrupt :: "direction_codes \<Rightarrow> ('h::len) state \<Rightarrow> 'h state" where
  "CNInterrupt dc s =
     (let s1 = TrapUpdate dc (commandedTorque s) (CW dc) s
      in s1\<lparr>regs := (regs s1)\<lparr>CNIF := False\<rparr>\<rparr>)"

section \<open>Vocabulary of the properties\<close>

text \<open>The three motor phases, and the high-side and low-side duty cycle of each.\<close>

datatype phase = A | B | C

definition gate_high :: "registers \<Rightarrow> phase \<Rightarrow> 16 word" where
  "gate_high r p = (case p of A \<Rightarrow> GH_A_DC r | B \<Rightarrow> GH_B_DC r | C \<Rightarrow> GH_C_DC r)"

definition gate_low :: "registers \<Rightarrow> phase \<Rightarrow> 16 word" where
  "gate_low r p = (case p of A \<Rightarrow> GL_A_DC r | B \<Rightarrow> GL_B_DC r | C \<Rightarrow> GL_C_DC r)"

text \<open>A Hall pattern is valid when the three bits are neither all 0 nor all 1.\<close>

definition valid_hall :: "registers \<Rightarrow> bool" where
  "valid_hall r = (\<not> (HALL1 r = HALL2 r \<and> HALL2 r = HALL3 r))"

text \<open>
  The state at program start: every static variable is zero-initialised; the registers
  are taken at zero.
\<close>

definition power_on :: "('h::len) state" where
  "power_on =
     \<lparr>motorInfo = \<lparr>currentSpeed = 0, hallCount = 0, lastHallState = 0\<rparr>,
      PIDs = \<lparr>Kp = 0, Ki = 0, Kd = 0, err = 0, der = 0, output = 0, integral = 0,
              currentError = 0\<rparr>,
      timerCurr = 0, timer = 0, commandedTorque = 0, changeState = 0,
      regs = \<lparr>TMR2 = 0, TMR3HLD = 0, HALL1 = False, HALL2 = False, HALL3 = False,
              GH_A_DC = 0, GL_A_DC = 0, GH_B_DC = 0, GL_B_DC = 0, GH_C_DC = 0, GL_C_DC = 0,
              LED1 = False, LED2 = False, LED3 = False, CNIF = False\<rparr>,
      uart = []\<rparr>"

text \<open>
  The environment between two calls: the Hall inputs take a new pattern and the 32-bit
  timer has counted to a new value (low word, high word).
\<close>

definition hall_event :: "bool \<Rightarrow> bool \<Rightarrow> bool \<Rightarrow> 16 word \<Rightarrow> 16 word \<Rightarrow> ('h::len) state \<Rightarrow> 'h state" where
  "hall_event h1 h2 h3 lo hi s =
     s\<lparr>regs := (regs s)\<lparr>HALL1 := h1, HALL2 := h2, HALL3 := h3, TMR2 := lo, TMR3HLD := hi\<rparr>\<rparr>"

text \<open>
  A run of the system from its two entry points: a Hall transition raises the
  change-notification interrupt (after the inputs and the timer took their new values),
  and the periodic caller invokes \<^verbatim>\<open>SpeedControlStep\<close> with a target speed and the
  update flag. A fault ends the run.
\<close>

datatype event = Hall bool bool bool "16 word" "16 word" | Step "16 word" "8 word"

fun run :: "direction_codes \<Rightarrow> event list \<Rightarrow> ('h::len) state \<Rightarrow> fault + 'h state" where
  "run dc [] s = Inr s"
| "run dc (Hall h1 h2 h3 lo hi # es) s = run dc es (CNInterrupt dc (hall_event h1 h2 h3 lo hi s))"
| "run dc (Step speed update # es) s =
     (case SpeedControlStep speed 0 update s of Inl f \<Rightarrow> Inl f | Inr s' \<Rightarrow> run dc es s')"

text \<open>Two distinct direction codes, for the concrete instances below.\<close>

definition example_codes :: direction_codes where
  "example_codes = \<lparr>CW = 0, CCW = 1\<rparr>"

text \<open>
  A state in which a control computation is pending, for the concrete instances below:
  one Hall transition, 52500 timer ticks after initialisation with the gains \<open>kp\<close>,
  \<open>ki\<close>, \<open>kd\<close>, with the previous error \<open>e\<close> and the integral \<open>i\<close> in \<^verbatim>\<open>PIDs\<close>.
\<close>

definition pending :: "real \<Rightarrow> real \<Rightarrow> real \<Rightarrow> real \<Rightarrow> real \<Rightarrow> 16 state" where
  "pending kp ki kd e i =
     (let s = SpeedControlInit kp ki kd power_on;
          s1 = s\<lparr>PIDs := (PIDs s)\<lparr>err := e, integral := i\<rparr>\<rparr>
      in CNInterrupt example_codes (hall_event True False False 52500 0 s1))"

section \<open>Properties\<close>

lemma all_phase: "(\<forall>p. P p) = (P A \<and> P B \<and> P C)"
  by (metis phase.exhaust)

lemma ex_phase: "(\<exists>p. P p) = (P A \<or> P B \<or> P C)"
  by (metis phase.exhaust)

lemma regs_TrapUpdate:
  "regs (TrapUpdate dc torque direction s) =
     commutate dc torque direction ((regs s)\<lparr>TMR3HLD := 0, TMR2 := 0\<rparr>)"
  by (simp add: TrapUpdate_def Let_def)

lemma gates_defs:
  "gate_high r A = GH_A_DC r" "gate_high r B = GH_B_DC r" "gate_high r C = GH_C_DC r"
  "gate_low r A = GL_A_DC r" "gate_low r B = GL_B_DC r" "gate_low r C = GL_C_DC r"
  by (simp_all add: gate_high_def gate_low_def)

lemmas eval_defs = SpeedControlInit_def power_on_def hall_event_def CNInterrupt_def
  TrapUpdate_def commutate_def set_outputs_def SpeedControlStep_def Let_def float_to_u16_def
  example_codes_def valid_hall_def

subsection \<open>Commutation\<close>

text \<open>
  C1. For each of the six valid Hall patterns and each of the two directions,
  \<^verbatim>\<open>TrapUpdate\<close> energizes exactly one phase pair: there are two different phases
  \<open>hi\<close> and \<open>lo\<close> such that the high-side gate of \<open>hi\<close> and the low-side gate of \<open>lo\<close>
  are set to the torque and the four other gates are set to 0; for no phase are both
  gates nonzero.
\<close>

theorem TrapUpdate_one_phase_pair:
  assumes "direction = CW dc \<or> direction = CCW dc"
    and "valid_hall (regs s)"
  shows "\<exists>hi lo. hi \<noteq> lo \<and>
           (\<forall>p. gate_high (regs (TrapUpdate dc torque direction s)) p = (if p = hi then torque else 0)) \<and>
           (\<forall>p. gate_low (regs (TrapUpdate dc torque direction s)) p = (if p = lo then torque else 0)) \<and>
           (\<forall>p. gate_high (regs (TrapUpdate dc torque direction s)) p = 0 \<or>
                gate_low (regs (TrapUpdate dc torque direction s)) p = 0)"
  using assms
  apply (simp add: regs_TrapUpdate commutate_def valid_hall_def)
  apply (cases "HALL1 (regs s)"; cases "HALL2 (regs s)"; cases "HALL3 (regs s)")
  apply (auto simp: all_phase ex_phase gates_defs set_outputs_def)
  done

theorem TrapUpdate_one_phase_pair_witness:
  "valid_hall (regs (hall_event True False True 0 0 (power_on :: 16 state))) \<and>
   (\<exists>hi lo. hi \<noteq> lo \<and>
      (\<forall>p. gate_high (regs (TrapUpdate example_codes 300 (CCW example_codes)
              (hall_event True False True 0 0 (power_on :: 16 state)))) p
            = (if p = hi then 300 else 0)) \<and>
      (\<forall>p. gate_low (regs (TrapUpdate example_codes 300 (CCW example_codes)
              (hall_event True False True 0 0 (power_on :: 16 state)))) p
            = (if p = lo then 300 else 0)) \<and>
      (\<forall>p. gate_high (regs (TrapUpdate example_codes 300 (CCW example_codes)
              (hall_event True False True 0 0 (power_on :: 16 state)))) p = 0 \<or>
           gate_low (regs (TrapUpdate example_codes 300 (CCW example_codes)
              (hall_event True False True 0 0 (power_on :: 16 state)))) p = 0))"
proof -
  have v: "valid_hall (regs (hall_event True False True 0 0 (power_on :: 16 state)))"
    by (simp add: valid_hall_def hall_event_def power_on_def)
  have d: "CCW example_codes = CW example_codes \<or> CCW example_codes = CCW example_codes"
    by simp
  show ?thesis
    using v TrapUpdate_one_phase_pair [OF d v, of 300] by blast
qed

text \<open>
  C5. For each valid Hall pattern the pair energized under CCW is the reverse of the
  pair energized under CW: the high-side duty of every phase under CCW is the low-side
  duty of that phase under CW, and the other way round, with the same torque.
\<close>

theorem CCW_reverses_CW:
  assumes "CW dc \<noteq> CCW dc" and "valid_hall (regs s)"
  shows "gate_high (regs (TrapUpdate dc torque (CCW dc) s)) p =
           gate_low (regs (TrapUpdate dc torque (CW dc) s)) p \<and>
         gate_low (regs (TrapUpdate dc torque (CCW dc) s)) p =
           gate_high (regs (TrapUpdate dc torque (CW dc) s)) p"
  using assms
  apply (simp add: regs_TrapUpdate commutate_def valid_hall_def)
  apply (cases p; cases "HALL1 (regs s)"; cases "HALL2 (regs s)"; cases "HALL3 (regs s)")
  apply (simp_all add: gates_defs set_outputs_def)
  done

theorem CCW_reverses_CW_witness:
  "CW example_codes \<noteq> CCW example_codes \<and>
   valid_hall (regs (hall_event True True False 0 0 (power_on :: 16 state))) \<and>
   gate_high (regs (TrapUpdate example_codes 300 (CW example_codes)
       (hall_event True True False 0 0 (power_on :: 16 state)))) B = 300 \<and>
   gate_low (regs (TrapUpdate example_codes 300 (CCW example_codes)
       (hall_event True True False 0 0 (power_on :: 16 state)))) B = 300"
proof -
  have c: "CW example_codes \<noteq> CCW example_codes"
    by (simp add: example_codes_def)
  have v: "valid_hall (regs (hall_event True True False 0 0 (power_on :: 16 state)))"
    by (simp add: valid_hall_def hall_event_def power_on_def)
  have "gate_high (regs (TrapUpdate example_codes 300 (CW example_codes)
       (hall_event True True False 0 0 (power_on :: 16 state)))) B = 300"
    by (simp add: eval_defs gates_defs)
  then show ?thesis
    using c v CCW_reverses_CW [OF c v, of 300 B] by simp
qed

lemma hi_mask:
  "(push_bit 16 (ucast (hi :: 16 word)) AND 0xFFFF0000 :: 32 word) = push_bit 16 (ucast hi)"
proof -
  have m: "(0xFFFF0000 :: 32 word) = push_bit 16 (mask 16)"
    by (simp add: mask_eq_exp_minus_1 push_bit_eq_mult)
  have "(ucast hi :: 32 word) AND mask 16 = ucast hi"
    by (rule bit_word_eqI) (auto simp: bit_simps dest: bit_imp_le_length)
  then show ?thesis
    unfolding m by (simp flip: push_bit_and)
qed

lemma lo_hi_disjoint:
  "(ucast (lo :: 16 word) :: 32 word) AND push_bit 16 (x :: 32 word) = 0"
  by (rule bit_word_eqI) (auto simp: bit_simps dest: bit_imp_le_length)

lemma unat_lt16: "unat (w :: 16 word) < 65536"
  using unsigned_less [of w, where 'a = nat] by simp

lemma unat_ucast_16_32: "unat (ucast (w :: 16 word) :: 32 word) = unat w"
proof -
  have "unat w < 2 ^ 32" using unat_lt16 [of w] by simp
  then show ?thesis
    by (simp add: unsigned_ucast_eq take_bit_nat_eq_self)
qed

lemma unat_hi: "unat (push_bit 16 (ucast (hi :: 16 word)) :: 32 word) = 65536 * unat hi"
proof -
  have b: "65536 * unat hi < 2 ^ 32" using unat_lt16 [of hi] by simp
  have "unat (push_bit 16 (ucast hi) :: 32 word)
          = take_bit 32 (push_bit 16 (unat (ucast hi :: 32 word)))"
    by (simp only: unsigned_push_bit_eq len_bit0 len_num1 Num.pred_numeral_simps)
       simp
  also have "\<dots> = take_bit 32 (65536 * unat hi)"
    by (simp add: unat_ucast_16_32 push_bit_eq_mult mult.commute)
  also have "\<dots> = 65536 * unat hi"
    using b by (simp only: take_bit_nat_eq_self)
  finally show ?thesis .
qed

text \<open>The 32-bit timer value read in lines 186-187: low word plus 65536 times high word.\<close>

lemma snapshot_value:
  "unat (ucast (lo :: 16 word) OR (push_bit 16 (ucast (hi :: 16 word)) AND 0xFFFF0000) :: 32 word)
     = unat lo + 65536 * unat hi"
proof -
  let ?L = "ucast lo :: 32 word" and ?H = "push_bit 16 (ucast hi) :: 32 word"
  have "?L OR (?H AND 0xFFFF0000) = ?L + ?H"
    by (simp only: hi_mask disjunctive_add_eq_or [OF lo_hi_disjoint])
  moreover have "unat ?L + unat ?H < 2 ^ LENGTH(32)"
    using unat_lt16 [of lo] unat_lt16 [of hi] by (simp add: unat_hi unat_ucast_16_32)
  then have "unat (?L + ?H) = unat ?L + unat ?H"
    by (rule unat_add_lem [THEN iffD1])
  ultimately show ?thesis
    by (simp only: unat_hi unat_ucast_16_32)
qed

lemma commutate_invalid:
  "\<not> valid_hall r \<Longrightarrow> commutate dc torque direction r = r"
  by (auto simp: commutate_def valid_hall_def)

text \<open>
  C9. For the two invalid Hall patterns (000 and 111) and any direction, \<^verbatim>\<open>TrapUpdate\<close>
  leaves the six duty cycles and the three LEDs as they were, and still increments
  \<^verbatim>\<open>hallCount\<close>, adds the timer snapshot (\<^verbatim>\<open>TMR2\<close> plus 65536 times \<^verbatim>\<open>TMR3HLD\<close>) to
  \<^verbatim>\<open>timer\<close>, zeroes both timer registers and sets \<^verbatim>\<open>changeState\<close> to 1.
\<close>

theorem TrapUpdate_invalid_hall:
  assumes "\<not> valid_hall (regs s)"
    and "s' = TrapUpdate dc torque direction s"
  shows "GH_A_DC (regs s') = GH_A_DC (regs s) \<and> GL_A_DC (regs s') = GL_A_DC (regs s) \<and>
         GH_B_DC (regs s') = GH_B_DC (regs s) \<and> GL_B_DC (regs s') = GL_B_DC (regs s) \<and>
         GH_C_DC (regs s') = GH_C_DC (regs s) \<and> GL_C_DC (regs s') = GL_C_DC (regs s) \<and>
         LED1 (regs s') = LED1 (regs s) \<and> LED2 (regs s') = LED2 (regs s) \<and>
         LED3 (regs s') = LED3 (regs s) \<and>
         hallCount (motorInfo s') = hallCount (motorInfo s) + 1 \<and>
         unat (timerCurr s') = unat (TMR2 (regs s)) + 65536 * unat (TMR3HLD (regs s)) \<and>
         timer s' = timer s + timerCurr s' \<and>
         TMR2 (regs s') = 0 \<and> TMR3HLD (regs s') = 0 \<and>
         changeState s' = 1"
proof -
  have v: "\<not> valid_hall ((regs s)\<lparr>TMR3HLD := 0, TMR2 := 0\<rparr>)"
    using assms(1) by (simp add: valid_hall_def)
  have r: "regs s' = (regs s)\<lparr>TMR3HLD := 0, TMR2 := 0\<rparr>"
    by (simp only: assms(2) regs_TrapUpdate commutate_invalid [OF v])
  have t: "timerCurr s' =
             ucast (TMR2 (regs s)) OR (push_bit 16 (ucast (TMR3HLD (regs s))) AND 0xFFFF0000)"
    by (simp add: assms(2) TrapUpdate_def Let_def)
  have "unat (timerCurr s') = unat (TMR2 (regs s)) + 65536 * unat (TMR3HLD (regs s))"
    by (simp only: t snapshot_value)
  moreover have "hallCount (motorInfo s') = hallCount (motorInfo s) + 1"
    and "timer s' = timer s + timerCurr s'" and "changeState s' = 1"
    by (simp_all add: assms(2) TrapUpdate_def Let_def)
  ultimately show ?thesis
    by (simp add: r)
qed

theorem TrapUpdate_invalid_hall_witness:
  "\<not> valid_hall (regs (hall_event True True True 0x1234 1 (power_on :: 16 state))) \<and>
   GH_A_DC (regs (TrapUpdate example_codes 300 (CW example_codes)
      (hall_event True True True 0x1234 1 (power_on :: 16 state)))) = 0 \<and>
   hallCount (motorInfo (TrapUpdate example_codes 300 (CW example_codes)
      (hall_event True True True 0x1234 1 (power_on :: 16 state)))) = 1 \<and>
   unat (timerCurr (TrapUpdate example_codes 300 (CW example_codes)
      (hall_event True True True 0x1234 1 (power_on :: 16 state)))) = 70196 \<and>
   changeState (TrapUpdate example_codes 300 (CW example_codes)
      (hall_event True True True 0x1234 1 (power_on :: 16 state))) = 1"
proof -
  have v: "\<not> valid_hall (regs (hall_event True True True 0x1234 1 (power_on :: 16 state)))"
    by (simp add: valid_hall_def hall_event_def power_on_def)
  show ?thesis
    using v TrapUpdate_invalid_hall [OF v refl, of example_codes 300 "CW example_codes"]
    by (simp add: hall_event_def power_on_def)
qed

text \<open>
  C10. The change-notification interrupt handler runs \<^verbatim>\<open>TrapUpdate\<close> with the stored
  \<^verbatim>\<open>commandedTorque\<close> and the direction \<^verbatim>\<open>CW\<close>, then clears the interrupt flag. It
  never produces the CCW pattern: for a valid Hall pattern and a nonzero torque some
  high-side duty differs from the one the CCW table would give.
\<close>

theorem CNInterrupt_commutates_CW:
  "CNInterrupt dc s =
     (TrapUpdate dc (commandedTorque s) (CW dc) s)
       \<lparr>regs := (regs (TrapUpdate dc (commandedTorque s) (CW dc) s))\<lparr>CNIF := False\<rparr>\<rparr> \<and>
   (CW dc \<noteq> CCW dc \<longrightarrow> valid_hall (regs s) \<longrightarrow> commandedTorque s \<noteq> 0 \<longrightarrow>
      (\<exists>p. gate_high (regs (CNInterrupt dc s)) p \<noteq>
           gate_high (regs (TrapUpdate dc (commandedTorque s) (CCW dc) s)) p))"
  apply (simp add: CNInterrupt_def Let_def regs_TrapUpdate)
  apply (simp add: commutate_def valid_hall_def)
  apply (cases "HALL1 (regs s)"; cases "HALL2 (regs s)"; cases "HALL3 (regs s)")
  apply (auto simp: ex_phase gate_high_def set_outputs_def)
  done

theorem CNInterrupt_commutates_CW_witness:
  "CW example_codes \<noteq> CCW example_codes \<and>
   valid_hall (regs (hall_event True False False 0 0 ((power_on :: 16 state)\<lparr>commandedTorque := 300\<rparr>))) \<and>
   commandedTorque (hall_event True False False 0 0 ((power_on :: 16 state)\<lparr>commandedTorque := 300\<rparr>)) \<noteq> 0 \<and>
   (\<exists>p. gate_high (regs (CNInterrupt example_codes
            (hall_event True False False 0 0 ((power_on :: 16 state)\<lparr>commandedTorque := 300\<rparr>)))) p \<noteq>
        gate_high (regs (TrapUpdate example_codes
            (commandedTorque (hall_event True False False 0 0 ((power_on :: 16 state)\<lparr>commandedTorque := 300\<rparr>)))
            (CCW example_codes)
            (hall_event True False False 0 0 ((power_on :: 16 state)\<lparr>commandedTorque := 300\<rparr>)))) p)"
proof -
  let ?s = "hall_event True False False 0 0 ((power_on :: 16 state)\<lparr>commandedTorque := 300\<rparr>)"
  have c: "CW example_codes \<noteq> CCW example_codes"
    by (simp add: example_codes_def)
  have v: "valid_hall (regs ?s)"
    by (simp add: valid_hall_def hall_event_def power_on_def)
  have t: "commandedTorque ?s \<noteq> 0"
    by (simp add: hall_event_def power_on_def)
  show ?thesis
    using c v t CNInterrupt_commutates_CW [of example_codes ?s] by blast
qed

subsection \<open>The control step\<close>

lemma step_changeState:
  "SpeedControlStep speed direction update s = Inr s' \<Longrightarrow> update \<noteq> 0 \<Longrightarrow> changeState s \<noteq> 0
     \<Longrightarrow> changeState s' = 0"
  by (auto simp: SpeedControlStep_def Let_def split: if_splits)

lemma step_integral:
  "SpeedControlStep speed direction update s = Inr s' \<Longrightarrow> update \<noteq> 0 \<Longrightarrow> changeState s \<noteq> 0
     \<Longrightarrow> integral (PIDs s') = min (integral (PIDs s) + err (PIDs s)) 2000000"
  by (auto simp: SpeedControlStep_def Let_def split: if_splits)

lemma step_output:
  "SpeedControlStep speed direction update s = Inr s' \<Longrightarrow> update \<noteq> 0 \<Longrightarrow> changeState s \<noteq> 0
     \<Longrightarrow> output (PIDs s') =
        (let raw = Kp (PIDs s) * err (PIDs s) + Ki (PIDs s) * integral (PIDs s') * 0.001
         in if raw > 30000 then 30000 else if raw < 0 then 0 else raw)"
  by (auto simp: SpeedControlStep_def Let_def split: if_splits)


lemma step_zero_count:
  "update \<noteq> 0 \<Longrightarrow> changeState s \<noteq> 0 \<Longrightarrow> hallCount (motorInfo s) = 0
     \<Longrightarrow> SpeedControlStep speed direction update s = Inl DivisionByZero"
  by (simp add: SpeedControlStep_def)


lemma step_zero_quotient:
  "update \<noteq> 0 \<Longrightarrow> changeState s \<noteq> 0 \<Longrightarrow> unat (timer s) < unat (hallCount (motorInfo s))
     \<Longrightarrow> SpeedControlStep speed direction update s = Inl DivisionByZero"
  by (simp add: SpeedControlStep_def)

lemma step_returns:
  "update \<noteq> 0 \<Longrightarrow> changeState s \<noteq> 0 \<Longrightarrow> hallCount (motorInfo s) \<noteq> 0
     \<Longrightarrow> 0 < unat (timer s) div unat (hallCount (motorInfo s))
     \<Longrightarrow> \<exists>s'. SpeedControlStep speed direction update s = Inr s'"
  by (simp add: SpeedControlStep_def Let_def)

text \<open>The example state \<open>pending\<close>: its fields.\<close>

lemma pending_fields:
  "timer (pending kp ki kd e i) = 52500"
  "hallCount (motorInfo (pending kp ki kd e i)) = 1"
  "changeState (pending kp ki kd e i) = 1"
  "PIDs (pending kp ki kd e i)
     = \<lparr>Kp = kp, Ki = ki, Kd = kd, err = e, der = 0, output = 0, integral = i, currentError = 0\<rparr>"
  by (simp_all add: pending_def CNInterrupt_def TrapUpdate_def hall_event_def SpeedControlInit_def
        power_on_def Let_def)

lemma pending_returns:
  "\<exists>s'. SpeedControlStep speed 0 1 (pending kp ki kd e i) = Inr s'"
  by (rule step_returns) (simp_all add: pending_fields)

lemma run_append:
  "run dc (es @ fs) s = (case run dc es s of Inl f \<Rightarrow> Inl f | Inr s' \<Rightarrow> run dc fs s')"
  by (induction dc es s rule: run.induct) (simp_all split: sum.splits)

lemma run_halls:
  "\<exists>s'. run dc (replicate n (Hall h1 h2 h3 lo hi)) s = Inr s' \<and>
        hallCount (motorInfo s') = hallCount (motorInfo s) + of_nat n \<and>
        (0 < n \<longrightarrow> changeState s' = 1)"
proof (induction n arbitrary: s)
  case 0
  then show ?case by simp
next
  case (Suc n)
  let ?s1 = "CNInterrupt dc (hall_event h1 h2 h3 lo hi s)"
  obtain s' where r: "run dc (replicate n (Hall h1 h2 h3 lo hi)) ?s1 = Inr s'"
    and h: "hallCount (motorInfo s') = hallCount (motorInfo ?s1) + of_nat n"
    and c: "0 < n \<longrightarrow> changeState s' = 1"
    using Suc.IH [of ?s1] by blast
  have h1: "hallCount (motorInfo ?s1) = hallCount (motorInfo s) + 1"
    and c1: "changeState ?s1 = 1"
    by (simp_all add: CNInterrupt_def TrapUpdate_def hall_event_def Let_def)
  have "changeState s' = 1"
  proof (cases n)
    case 0
    then show ?thesis using r c1 by simp
  next
    case (Suc m)
    then show ?thesis using c by simp
  qed
  then show ?case
    using r h h1 by simp
qed

text \<open>
  The state with a zero count and the flag set is reached from initialisation: after as
  many Hall transitions as \<^verbatim>\<open>hallCount\<close> has values, with no control step in between, the
  count is 0 again and \<^verbatim>\<open>changeState\<close> is 1; the next control step traps.
\<close>

lemma hallCount_wraps_then_trap:
  "run dc (replicate (2 ^ LENGTH('h)) (Hall h1 h2 h3 lo hi) @ [Step speed 1])
       (SpeedControlInit kp ki kd (s :: ('h::len) state)) = Inl DivisionByZero"
proof -
  let ?s0 = "SpeedControlInit kp ki kd s"
  have w: "(word_of_nat (2 ^ LENGTH('h)) :: 'h word) = 0"
    by simp
  have "hallCount (motorInfo ?s0) = 0"
    by (simp add: SpeedControlInit_def)
  then obtain s' where r: "run dc (replicate (2 ^ LENGTH('h)) (Hall h1 h2 h3 lo hi)) ?s0 = Inr s'"
    and "hallCount (motorInfo s') = 0" and "changeState s' = 1"
    using run_halls [of dc "2 ^ LENGTH('h)" h1 h2 h3 lo hi ?s0] by (auto simp: w)
  then have "hallCount (motorInfo s') = 0" and "changeState s' \<noteq> 0"
    by simp_all
  then have "SpeedControlStep speed 0 1 s' = Inl DivisionByZero"
    by (simp add: step_zero_count)
  then show ?thesis
    by (simp add: run_append r)
qed

text \<open>
  The outer division of line 122 traps as well: when fewer timer ticks than Hall
  transitions were accumulated (the timer read 0 at the transition), the quotient
  \<^verbatim>\<open>timer / hallCount\<close> is 0.
\<close>

lemma zero_ticks_then_trap:
  "run dc [Hall h1 h2 h3 0 0, Step speed 1] (SpeedControlInit kp ki kd (s :: 16 state))
     = Inl DivisionByZero"
  by (simp add: CNInterrupt_def TrapUpdate_def hall_event_def SpeedControlInit_def Let_def
      SpeedControlStep_def)

text \<open>
  C8. \<^verbatim>\<open>SpeedControlStep\<close> returns the state it was given (no variable changed, no
  diagnostic line written) exactly when \<^verbatim>\<open>update\<close> is zero or \<^verbatim>\<open>changeState\<close> is zero;
  the control computation runs only when both are nonzero.
\<close>

theorem SpeedControlStep_noop:
  "(SpeedControlStep speed direction update s = Inr s) = (update = 0 \<or> changeState s = 0)"
proof
  assume "SpeedControlStep speed direction update s = Inr s"
  then show "update = 0 \<or> changeState s = 0"
    using step_changeState by blast
next
  assume "update = 0 \<or> changeState s = 0"
  then show "SpeedControlStep speed direction update s = Inr s"
    by (auto simp: SpeedControlStep_def)
qed

theorem SpeedControlStep_noop_witness:
  "SpeedControlStep 1000 0 0 (pending 1 0 0 0 0) = Inr (pending 1 0 0 0 0) \<and>
   SpeedControlStep 1000 0 1 (SpeedControlInit 1 0 0 (power_on :: 16 state))
     = Inr (SpeedControlInit 1 0 0 (power_on :: 16 state)) \<and>
   SpeedControlStep 1000 0 1 (pending 1 0 0 0 0) \<noteq> Inr (pending 1 0 0 0 0)"
proof -
  have "changeState (SpeedControlInit 1 0 0 (power_on :: 16 state)) = 0"
    by (simp add: SpeedControlInit_def power_on_def)
  then show ?thesis
    by (simp add: SpeedControlStep_noop pending_fields)
qed

text \<open>
  C7. When the control computation runs with a nonzero \<^verbatim>\<open>hallCount\<close> and a nonzero quotient
  \<^verbatim>\<open>timer / hallCount\<close>, the step returns and the speed estimate is 52500000 divided by
  that quotient (both integer divisions); with \<^verbatim>\<open>timer = 52500\<close> and \<^verbatim>\<open>hallCount = 1\<close>
  it is 1000.
\<close>

theorem speed_estimate:
  assumes "update \<noteq> 0" and "changeState s \<noteq> 0" and "hallCount (motorInfo s) \<noteq> 0"
    and "0 < unat (timer s) div unat (hallCount (motorInfo s))"
  shows "\<exists>s'. SpeedControlStep speed direction update s = Inr s' \<and>
           currentSpeed (motorInfo s') =
             int (52500000 div (unat (timer s) div unat (hallCount (motorInfo s))))"
  using assms by (simp add: SpeedControlStep_def Let_def)

theorem speed_estimate_witness:
  "timer (pending 1 0 0 0 0) = 52500 \<and> hallCount (motorInfo (pending 1 0 0 0 0)) = 1 \<and>
   (\<exists>s'. SpeedControlStep 1000 0 1 (pending 1 0 0 0 0) = Inr s' \<and>
      currentSpeed (motorInfo s') = 1000)"
proof -
  have "\<exists>s'. SpeedControlStep 1000 0 1 (pending 1 0 0 0 0) = Inr s' \<and>
          currentSpeed (motorInfo s') =
            int (52500000 div (unat (timer (pending 1 0 0 0 0))
                               div unat (hallCount (motorInfo (pending 1 0 0 0 0)))))"
    by (rule speed_estimate) (simp_all add: pending_fields)
  then show ?thesis
    by (simp add: pending_fields)
qed

text \<open>
  C4. With \<^verbatim>\<open>update\<close> and \<^verbatim>\<open>changeState\<close> nonzero and \<^verbatim>\<open>hallCount\<close> equal to 0, line 122
  divides by zero: the step traps instead of returning.
\<close>

theorem SpeedControlStep_hallCount_zero_traps:
  "SpeedControlStep 1000 0 1 ((power_on :: 16 state)\<lparr>timer := 52500, changeState := 1\<rparr>)
     = Inl DivisionByZero"
  by (simp add: SpeedControlStep_def power_on_def)

text \<open>
  C2, as the code has it. After every control computation the integral is the smaller of
  (previous integral + previous error) and 2000000: it never exceeds 2000000. Nothing
  bounds it from below.
\<close>

theorem integral_upper_clamp:
  assumes "SpeedControlStep speed direction update s = Inr s'"
    and "update \<noteq> 0" and "changeState s \<noteq> 0"
  shows "integral (PIDs s') = min (integral (PIDs s) + err (PIDs s)) 2000000 \<and>
         integral (PIDs s') \<le> 2000000"
  using step_integral [OF assms] by simp

theorem integral_upper_clamp_witness:
  "\<exists>s'. SpeedControlStep 1000 0 1 (pending 1 0 0 30000 1999000) = Inr s' \<and>
      integral (PIDs s') = 2000000"
proof -
  obtain s' where e: "SpeedControlStep 1000 0 1 (pending 1 0 0 30000 1999000) = Inr s'"
    using pending_returns by blast
  have "integral (PIDs s') =
          min (integral (PIDs (pending 1 0 0 30000 1999000)) + err (PIDs (pending 1 0 0 30000 1999000)))
              2000000 \<and>
        integral (PIDs s') \<le> 2000000"
    by (rule integral_upper_clamp [OF e]) (simp_all add: pending_fields)
  then show ?thesis
    using e by (simp add: pending_fields)
qed

text \<open>
  C2 as stated fails: with a target speed of 500 and an estimate of 1000 the error of
  the first control step is -500, and the second step adds it to the integral.
\<close>

theorem integral_below_zero_counterexample:
  "(case run example_codes
           [Hall True False False 52500 0, Step 500 1, Hall True True False 52500 0, Step 500 1]
           (SpeedControlInit 1 0 0 (power_on :: 16 state))
    of Inl f \<Rightarrow> False
     | Inr s \<Rightarrow> integral (PIDs s) = - 500 \<and>
         \<not> (0 \<le> integral (PIDs s) \<and> integral (PIDs s) \<le> 2000000))"
  by (simp add: eval_defs)

text \<open>
  C3, as the code has it. The statement of lines 132-133 ends after the Ki term; only
  the Kd term of line 134 is dead. The output before clamping is
  \<open>Kp * err + Ki * integral * 0.001\<close>, with the error of the previous step and the
  integral just updated; the step then clamps it.
\<close>

theorem output_Kp_and_Ki_terms:
  assumes "SpeedControlStep speed direction update s = Inr s'"
    and "update \<noteq> 0" and "changeState s \<noteq> 0"
  shows "output (PIDs s') =
           (let raw = Kp (PIDs s) * err (PIDs s) + Ki (PIDs s) * integral (PIDs s') * 0.001
            in if raw > 30000 then 30000 else if raw < 0 then 0 else raw)"
  using assms by (rule step_output)

theorem output_Kp_and_Ki_terms_witness:
  "\<exists>s'. SpeedControlStep 1100 0 1 (pending 1 1000 5 100 0) = Inr s' \<and>
      integral (PIDs s') = 100 \<and> output (PIDs s') = 200"
proof -
  obtain s' where e: "SpeedControlStep 1100 0 1 (pending 1 1000 5 100 0) = Inr s'"
    using pending_returns by blast
  have i: "integral (PIDs s') = 100"
    using step_integral [OF e] by (simp add: pending_fields)
  have "output (PIDs s') =
           (let raw = Kp (PIDs (pending 1 1000 5 100 0)) * err (PIDs (pending 1 1000 5 100 0))
                      + Ki (PIDs (pending 1 1000 5 100 0)) * integral (PIDs s') * 0.001
            in if raw > 30000 then 30000 else if raw < 0 then 0 else raw)"
    by (rule output_Kp_and_Ki_terms [OF e]) (simp_all add: pending_fields)
  then show ?thesis
    using e by (simp add: pending_fields i)
qed

text \<open>
  C3 as stated fails: with Kp = 1 and Ki = 1000, after one control step that left an
  error of 100, the next step gives the output 200, not the proportional term 100.
\<close>

theorem output_not_proportional_counterexample:
  "(case run example_codes
           [Hall True False False 52500 0, Step 1100 1, Hall True True False 52500 0]
           (SpeedControlInit 1 1000 0 (power_on :: 16 state))
    of Inl f \<Rightarrow> False
     | Inr s \<Rightarrow>
        (case SpeedControlStep 1100 0 1 s
         of Inl f \<Rightarrow> False
          | Inr s' \<Rightarrow> Kp (PIDs s) * err (PIDs s) = 100 \<and> output (PIDs s') = 200))"
  by (simp add: eval_defs)



end
